theory Spec2Isabelle
  imports Complex_Main "HOL-Library.Sublist"
begin

section \<open>Values of the request payload\<close>

text \<open>
  The handler \<open>score_response\<close> of \<open>prompting/api/scoring/api.py\<close> works on the value
  that \<open>request.json()\<close> returns: \<open>None\<close>, booleans, integers, strings, lists and
  dictionaries with string keys. A dictionary is an association list in insertion order,
  looked up with \<open>map_of\<close>. Floating-point numbers are not part of this model.
\<close>

datatype json =
    JNull
  | JBool bool
  | JInt int
  | JStr string
  | JList "json list"
  | JDict "(string \<times> json) list"

datatype py_exception =
    AttributeError
  | TypeError
  | ValueError
  | KeyError
  | IndexError
  | NameError string

text \<open>Truth value of an object, as \<open>if x\<close> and \<open>not x\<close> test it.\<close>

fun truthy :: "json \<Rightarrow> bool" where
  "truthy JNull = False"
| "truthy (JBool b) = b"
| "truthy (JInt i) = (i \<noteq> 0)"
| "truthy (JStr s) = (s \<noteq> [])"
| "truthy (JList xs) = (xs \<noteq> [])"
| "truthy (JDict kvs) = (kvs \<noteq> [])"

fun py_not :: "json \<Rightarrow> bool" where
  "py_not v = (\<not> truthy v)"

text \<open>\<open>d.get(k, dflt)\<close> on a dictionary; on any other object the attribute is missing.\<close>

definition dict_get :: "(string \<times> json) list \<Rightarrow> string \<Rightarrow> json \<Rightarrow> json" where
  "dict_get d k dflt = (case map_of d k of Some v \<Rightarrow> v | None \<Rightarrow> dflt)"

fun py_get :: "json \<Rightarrow> string \<Rightarrow> json \<Rightarrow> py_exception + json" where
  "py_get (JDict d) k dflt = Inr (dict_get d k dflt)"
| "py_get _ k dflt = Inl AttributeError"

text \<open>\<open>x[0]\<close>: the first element of a list or string; a dictionary with string keys has no key 0.\<close>

fun py_index0 :: "json \<Rightarrow> py_exception + json" where
  "py_index0 (JList []) = Inl IndexError"
| "py_index0 (JList (x # xs)) = Inr x"
| "py_index0 (JStr []) = Inl IndexError"
| "py_index0 (JStr (c # cs)) = Inr (JStr [c])"
| "py_index0 (JDict kvs) = Inl KeyError"
| "py_index0 _ = Inl TypeError"

text \<open>\<open>x[k]\<close> for a string key \<open>k\<close>.\<close>

fun py_getitem :: "json \<Rightarrow> string \<Rightarrow> py_exception + json" where
  "py_getitem (JDict d) k = (case map_of d k of Some v \<Rightarrow> Inr v | None \<Rightarrow> Inl KeyError)"
| "py_getitem _ k = Inl TypeError"

text \<open>The elements a \<open>for\<close> loop or comprehension sees.\<close>

fun py_iter :: "json \<Rightarrow> py_exception + json list" where
  "py_iter (JList xs) = Inr xs"
| "py_iter (JStr s) = Inr (map (\<lambda>c. JStr [c]) s)"
| "py_iter (JDict kvs) = Inr (map (\<lambda>kv. JStr (fst kv)) kvs)"
| "py_iter _ = Inl TypeError"

text \<open>
  \<open>int(x)\<close>. Parsing a string is the interpreter's business: \<open>int_of_str\<close> is taken as
  given and returns \<open>None\<close> where \<open>int\<close> raises \<open>ValueError\<close>.
\<close>

fun py_int :: "(string \<Rightarrow> int option) \<Rightarrow> json \<Rightarrow> py_exception + int" where
  "py_int int_of_str (JInt i) = Inr i"
| "py_int int_of_str (JBool b) = Inr (if b then 1 else 0)"
| "py_int int_of_str (JStr s) = (case int_of_str s of Some i \<Rightarrow> Inr i | None \<Rightarrow> Inl ValueError)"
| "py_int int_of_str _ = Inl TypeError"

text \<open>\<open>str(n)\<close> of an integer: its decimal digits.\<close>

definition digit_char :: "nat \<Rightarrow> char" where
  "digit_char d =
     (if d = 0 then CHR ''0'' else if d = 1 then CHR ''1'' else if d = 2 then CHR ''2''
      else if d = 3 then CHR ''3'' else if d = 4 then CHR ''4'' else if d = 5 then CHR ''5''
      else if d = 6 then CHR ''6'' else if d = 7 then CHR ''7'' else if d = 8 then CHR ''8''
      else CHR ''9'')"

function str_nat :: "nat \<Rightarrow> string" where
  "str_nat n = (if n < 10 then [digit_char n] else str_nat (n div 10) @ [digit_char (n mod 10)])"
  by pat_completeness auto
termination
  by (relation "measure id") auto

declare str_nat.simps [simp del]

definition str_int :: "int \<Rightarrow> string" where
  "str_int i = (if i < 0 then CHR ''-'' # str_nat (nat (- i)) else str_nat (nat i))"

text \<open>A comprehension whose element expression may raise: the first exception ends it.\<close>

fun map_exc :: "('a \<Rightarrow> py_exception + 'b) \<Rightarrow> 'a list \<Rightarrow> py_exception + 'b list" where
  "map_exc f [] = Inr []"
| "map_exc f (x # xs) =
     (case f x of
        Inl e \<Rightarrow> Inl e
      | Inr y \<Rightarrow> (case map_exc f xs of Inl e \<Rightarrow> Inl e | Inr ys \<Rightarrow> Inr (y # ys)))"

section \<open>Tasks, response bundles and the scoring queue\<close>

text \<open>
  The classes \<open>InferenceTask\<close>, \<open>WebRetrievalTask\<close>, \<open>SynapseStreamResult\<close>,
  \<open>DendriteResponseEvent\<close>, \<open>DatasetEntry\<close> and \<open>DDGDatasetEntry\<close> are imported by the
  handler; each is modelled by the keyword arguments the handler passes to it, in the
  order of the call. A check one of these classes may make of its arguments is not
  part of the model. \<open>'m\<close> is the type of a model handle of the model zoo.
\<close>

datatype 'm task =
    InferenceTask json "'m option" json int json json
  | WebRetrievalTask "json list" int json json

datatype stream_result = SynapseStreamResult (accumulated_chunks: json)

record response_event =
  uids :: json
  stream_results :: "stream_result list"
  timeout :: json

datatype dataset_entry = DatasetEntry | DDGDatasetEntry json

record 'm queue_entry =
  task :: "'m task"
  response :: response_event
  dataset_entry :: dataset_entry
  block :: int
  step :: int
  task_id :: string

datatype level = INFO | WARNING | ERROR

datatype 'm log_event =
    SkippingScoring json json
  | ModelNotInZoo json
  | ReceivedInference json
  | ModelType json
  | TaskCreated "'m task"
  | ReceivedWebRetrieval json
  | SearchTermFailed py_exception
  | AppendedToQueue

text \<open>
  What the handler reads from its surroundings: two settings, the model zoo
  (\<open>None\<close> where \<open>get_model_by_id\<close> raises), the block height the metagraph shows at the
  k-th read, the k-th identifier \<open>uuid.uuid4()\<close> draws, and the parser behind \<open>int\<close>.
\<close>

record 'm environment =
  NEURON_TIMEOUT :: json
  SAMPLING_PARAMS :: json
  get_model_by_id :: "json \<Rightarrow> 'm option"
  metagraph_block :: "nat \<Rightarrow> int"
  uuid4 :: "nat \<Rightarrow> string"
  int_of_str :: "string \<Rightarrow> int option"

text \<open>
  What the handler changes: the entries handed to \<open>task_scorer.add_to_queue\<close> in call
  order, the log, and how often the block height and \<open>uuid4\<close> have been read.
\<close>

record 'm scorer_state =
  enqueued :: "'m queue_entry list"
  logged :: "(level \<times> 'm log_event) list"
  block_reads :: nat
  uuids_drawn :: nat

datatype outcome = Returned | Raised py_exception

definition logger :: "level \<Rightarrow> 'm log_event \<Rightarrow> 'm scorer_state \<Rightarrow> 'm scorer_state" where
  "logger lv ev st = st\<lparr>logged := logged st @ [(lv, ev)]\<rparr>"

definition add_to_queue :: "'m queue_entry \<Rightarrow> 'm scorer_state \<Rightarrow> 'm scorer_state" where
  "add_to_queue e st = st\<lparr>enqueued := enqueued st @ [e]\<rparr>"

definition read_block :: "'m environment \<Rightarrow> 'm scorer_state \<Rightarrow> int \<times> 'm scorer_state" where
  "read_block env st = (metagraph_block env (block_reads st), st\<lparr>block_reads := Suc (block_reads st)\<rparr>)"

definition draw_uuid :: "'m environment \<Rightarrow> 'm scorer_state \<Rightarrow> string \<times> 'm scorer_state" where
  "draw_uuid env st = (uuid4 env (uuids_drawn st), st\<lparr>uuids_drawn := Suc (uuids_drawn st)\<rparr>)"

section \<open>The handler \<open>score_response\<close>\<close>

text \<open>
  The last five arguments of both \<open>add_to_queue\<close> calls, evaluated in the order of the
  call: the block height is read, the step is the literal \<open>-1\<close>, the identifier is drawn;
  then the entry is handed over and the closing line is logged.
\<close>

definition enqueue_organic ::
  "'m environment \<Rightarrow> 'm scorer_state \<Rightarrow> 'm task \<Rightarrow> response_event \<Rightarrow> dataset_entry
    \<Rightarrow> outcome \<times> 'm scorer_state" where
  "enqueue_organic env st tk resp entry =
     (let (blk, st1) = read_block env st;
          (tid, st2) = draw_uuid env st1;
          st3 = add_to_queue
                  \<lparr>task = tk, response = resp, dataset_entry = entry,
                   block = blk, step = - 1, task_id = tid\<rparr> st2
      in (Returned, logger INFO AppendedToQueue st3))"

text \<open>Lines 75 to 98: the branch \<open>task_name == "InferenceTask"\<close>.\<close>

definition inference_branch ::
  "'m environment \<Rightarrow> 'm scorer_state \<Rightarrow> (string \<times> json) list \<Rightarrow> 'm option \<Rightarrow> json
    \<Rightarrow> int list \<Rightarrow> json \<Rightarrow> outcome \<times> 'm scorer_state" where
  "inference_branch env st b llm_model tmo uid_list chunks =
     (let st1 = logger INFO (ReceivedInference (JDict b)) st;
          st2 = logger INFO (ModelType (dict_get b ''model'' JNull)) st1
      in case py_int (int_of_str env) (dict_get b ''seed'' (JInt 0)) of
           Inl e \<Rightarrow> (Raised e, st2)
         | Inr sd \<Rightarrow>
             (let organic_task =
                    InferenceTask (dict_get b ''messages'' JNull) llm_model
                      (dict_get b ''model'' JNull) sd
                      (dict_get b ''sampling_parameters'' (SAMPLING_PARAMS env))
                      (dict_get b ''messages'' JNull);
                  st3 = logger INFO (TaskCreated organic_task) st2
              in case map_exc (\<lambda>uid. map_sum id SynapseStreamResult
                                       (py_get chunks (str_int uid) JNull)) uid_list of
                   Inl e \<Rightarrow> (Raised e, st3)
                 | Inr results \<Rightarrow>
                     enqueue_organic env st3 organic_task
                       \<lparr>uids = JList (map JInt uid_list), stream_results = results,
                        timeout = tmo\<rparr>
                       DatasetEntry))"

text \<open>Line 102: \<open>body.get("messages")[0].get("content")\<close>, inside the \<open>try\<close>.\<close>

definition search_term_of :: "(string \<times> json) list \<Rightarrow> py_exception + json" where
  "search_term_of b =
     (case py_index0 (dict_get b ''messages'' JNull) of
        Inl e \<Rightarrow> Inl e
      | Inr m \<Rightarrow> py_get m ''content'' JNull)"

text \<open>Line 109: \<open>[msg["content"] for msg in body.get("messages")]\<close>.\<close>

definition message_contents :: "(string \<times> json) list \<Rightarrow> py_exception + json list" where
  "message_contents b =
     (case py_iter (dict_get b ''messages'' JNull) of
        Inl e \<Rightarrow> Inl e
      | Inr ms \<Rightarrow> map_exc (\<lambda>msg. py_getitem msg ''content'') ms)"

text \<open>Lines 99 to 125: the branch \<open>task_name == "WebRetrievalTask"\<close>.\<close>

definition web_retrieval_branch ::
  "'m environment \<Rightarrow> 'm scorer_state \<Rightarrow> (string \<times> json) list \<Rightarrow> int list \<Rightarrow> json
    \<Rightarrow> outcome \<times> 'm scorer_state" where
  "web_retrieval_branch env st b uid_list chunks =
     (let st1 = logger INFO (ReceivedWebRetrieval (JDict b)) st
      in case search_term_of b of
           Inl ex \<Rightarrow> (Returned, logger ERROR (SearchTermFailed ex) st1)
         | Inr search_term \<Rightarrow>
             (case message_contents b of
                Inl e \<Rightarrow> (Raised e, st1)
              | Inr msgs \<Rightarrow>
                  (case py_int (int_of_str env) (dict_get b ''seed'' (JInt 0)) of
                     Inl e \<Rightarrow> (Raised e, st1)
                   | Inr sd \<Rightarrow>
                       (case py_iter chunks of
                          Inl e \<Rightarrow> (Raised e, st1)
                        | Inr cs \<Rightarrow>
                            enqueue_organic env st1
                              (WebRetrievalTask msgs sd
                                 (dict_get b ''sampling_params'' (JDict [])) search_term)
                              \<lparr>uids = JList [JList (map JInt uid_list)],
                               stream_results =
                                 [SynapseStreamResult (JList (filter (\<lambda>chunk. chunk \<noteq> JNull) cs))],
                               timeout = dict_get b ''timeout'' (NEURON_TIMEOUT env)\<rparr>
                              (DDGDatasetEntry search_term)))))"

text \<open>Lines 74 to 126: the dispatch on \<open>body.get("task")\<close>; no branch for any other value.\<close>

definition dispatch ::
  "'m environment \<Rightarrow> 'm scorer_state \<Rightarrow> (string \<times> json) list \<Rightarrow> 'm option \<Rightarrow> json
    \<Rightarrow> int list \<Rightarrow> json \<Rightarrow> outcome \<times> 'm scorer_state" where
  "dispatch env st b llm_model tmo uid_list chunks =
     (let task_name = dict_get b ''task'' JNull
      in if task_name = JStr ''InferenceTask''
         then inference_branch env st b llm_model tmo uid_list chunks
         else if task_name = JStr ''WebRetrievalTask''
         then web_retrieval_branch env st b uid_list chunks
         else (Returned, logger INFO AppendedToQueue st))"

text \<open>
  Lines 52 to 73, for a request the dependency \<open>verify_signature\<close> has let through.
  The \<open>return\<close> of line 71 stands under \<open>if model:\<close>, after the \<open>try\<close> statement,
  so it runs whether or not the lookup raised.
\<close>

definition score_response ::
  "'m environment \<Rightarrow> 'm scorer_state \<Rightarrow> json \<Rightarrow> outcome \<times> 'm scorer_state" where
  "score_response env st payload =
     (case payload of
        JDict p \<Rightarrow>
          (let body = dict_get p ''body'' JNull;
               tmo = dict_get p ''timeout'' (NEURON_TIMEOUT env);
               uid_field = dict_get p ''uid'' (JList []);
               chunks = dict_get p ''chunks'' (JDict [])
           in if py_not uid_field \<or> py_not chunks
              then (Returned, logger ERROR (SkippingScoring uid_field chunks) st)
              else
                (case py_iter uid_field of
                   Inl e \<Rightarrow> (Raised e, st)
                 | Inr us \<Rightarrow>
                     (case map_exc (py_int (int_of_str env)) us of
                        Inl e \<Rightarrow> (Raised e, st)
                      | Inr uid_list \<Rightarrow>
                          (case body of
                             JDict b \<Rightarrow>
                               (let model = dict_get b ''model'' JNull
                                in if truthy model
                                   then (case get_model_by_id env model of
                                           None \<Rightarrow> (Returned, logger WARNING (ModelNotInZoo model) st)
                                         | Some llm_model \<Rightarrow> (Returned, st))
                                   else dispatch env st b None tmo uid_list chunks)
                           | _ \<Rightarrow> (Raised AttributeError, st)))))
      | _ \<Rightarrow> (Raised AttributeError, st))"

section \<open>The signature verifier \<open>verify_scoring_signature\<close>\<close>

text \<open>
  The verifier's arguments are tested with \<open>isinstance\<close>, so they are objects of any of
  the kinds below. \<open>sha256\<close>, the \<open>repr\<close> of objects that have no literal form, and
  \<open>Keypair\<close> are the interpreter's and the libraries': \<open>keypair_verify a m s\<close> stands
  for \<open>Keypair(ss58_address=a).verify(m, s)\<close>, which may raise.
\<close>

datatype pyobj = OStr string | OBytes "nat list" | OInt int | ONone | OModule string

record runtime =
  sha256_hexdigest :: "nat list \<Rightarrow> string"
  keypair_verify :: "string \<Rightarrow> string \<Rightarrow> string \<Rightarrow> py_exception + bool"
  repr_obj :: "pyobj \<Rightarrow> string"

text \<open>A replacement field \<open>{x}\<close> of an f-string.\<close>

fun py_format :: "runtime \<Rightarrow> pyobj \<Rightarrow> string" where
  "py_format rt (OStr s) = s"
| "py_format rt (OInt i) = str_int i"
| "py_format rt ONone = ''None''"
| "py_format rt v = repr_obj rt v"

text \<open>
  A name in a function body is looked up among the function's parameters, then among
  the names of the module; a name bound in neither raises \<open>NameError\<close>.
\<close>

type_synonym namespace = "string \<Rightarrow> pyobj option"

definition lookup_name :: "namespace \<Rightarrow> namespace \<Rightarrow> string \<Rightarrow> py_exception + pyobj" where
  "lookup_name locals globals n =
     (case locals n of
        Some v \<Rightarrow> Inr v
      | None \<Rightarrow> (case globals n of Some v \<Rightarrow> Inr v | None \<Rightarrow> Inl (NameError n)))"

text \<open>
  Of the names the message of line 38 reads, the module \<open>api.py\<close> binds \<open>uuid\<close>, to the
  module imported on line 1; it binds neither \<open>timestamp\<close> nor \<open>signed_for\<close>.
\<close>

definition api_globals :: namespace where
  "api_globals = [''uuid'' \<mapsto> OModule ''uuid'']"

text \<open>
  Lines 20 to 48. The parameters are \<open>signature\<close>, \<open>body\<close> and \<open>signed_by\<close>;
  \<open>API_HOTKEY\<close> is the setting \<open>shared_settings.API_HOTKEY\<close>, \<open>globals\<close> the module's
  names when the function is called. The result is the returned message, \<open>None\<close> for a
  verified signature.
\<close>

definition verify_scoring_signature ::
  "runtime \<Rightarrow> string \<Rightarrow> namespace \<Rightarrow> pyobj \<Rightarrow> pyobj \<Rightarrow> pyobj \<Rightarrow> py_exception + string option" where
  "verify_scoring_signature rt API_HOTKEY globals signature body signed_by =
     (case signature of
        OStr sig \<Rightarrow>
          (case body of
             OBytes raw \<Rightarrow>
               (case signed_by of
                  OStr signer \<Rightarrow>
                    if signer \<noteq> API_HOTKEY
                    then Inr (Some ''Message not from the expected SS58 address'')
                    else
                      (let locals = [''signature'' \<mapsto> signature, ''body'' \<mapsto> body,
                                     ''signed_by'' \<mapsto> signed_by]
                       in case lookup_name locals globals ''uuid'' of
                            Inl e \<Rightarrow> Inl e
                          | Inr u \<Rightarrow>
                          (case lookup_name locals globals ''timestamp'' of
                             Inl e \<Rightarrow> Inl e
                           | Inr ts \<Rightarrow>
                           (case lookup_name locals globals ''signed_for'' of
                              Inl e \<Rightarrow> Inl e
                            | Inr sf \<Rightarrow>
                              (let message = sha256_hexdigest rt raw @ ''.'' @ py_format rt u
                                     @ ''.'' @ py_format rt ts @ ''.'' @ py_format rt sf
                               in case keypair_verify rt signer message sig of
                                    Inl e \<Rightarrow> Inl e
                                  | Inr verified \<Rightarrow>
                                      if \<not> verified then Inr (Some ''Signature mismatch'')
                                      else Inr None))))
                | _ \<Rightarrow> Inr (Some ''Invalid 'signed_by' address''))
           | _ \<Rightarrow> Inr (Some ''Body is not of type bytes''))
      | _ \<Rightarrow> Inr (Some ''Invalid signature type''))"

section \<open>The validator's constructor\<close>

text \<open>
  \<open>Validator.__init__\<close> of \<open>neurons/validator.py\<close>, from line 47 on. The weights are
  of any type with \<open>0\<close>, \<open>1\<close>, \<open>+\<close> and \<open><\<close>; no law of arithmetic is assumed of them,
  so the model reads the same for Python's floating-point numbers. \<open>sum\<close> adds from
  the left, starting at \<open>0\<close>.
\<close>

record ('t, 'p) neuron_config =
  tasks :: "'t list"
  task_p :: "'p list"

datatype 't reward_pipeline = RewardPipeline (selected_tasks: "'t list")

record 't validator =
  active_tasks :: "'t list"
  reward_pipeline :: "'t reward_pipeline"

definition py_sum :: "'p::{zero,plus} list \<Rightarrow> 'p" where
  "py_sum ps = foldl (+) 0 ps"

definition validator_init ::
  "('t, 'p::{zero,one,plus,ord}) neuron_config \<Rightarrow> py_exception + 't validator" where
  "validator_init cfg =
     (if py_sum (task_p cfg) \<noteq> 1 then Inl ValueError
      else
        (let active = [tsk. (tsk, p) \<leftarrow> zip (tasks cfg) (task_p cfg), 0 < p]
         in Inr \<lparr>active_tasks = active, reward_pipeline = RewardPipeline active\<rparr>))"

section \<open>Example requests and configurations\<close>

definition example_env :: "string environment" where
  "example_env =
     \<lparr>NEURON_TIMEOUT = JInt 15,
      SAMPLING_PARAMS = JDict [(''temperature'', JInt 1)],
      get_model_by_id = (\<lambda>m. if m = JStr ''known-model'' then Some ''known-model-config'' else None),
      metagraph_block = (\<lambda>k. 4242 + int k),
      uuid4 = (\<lambda>k. ''task-'' @ str_nat k),
      int_of_str = (\<lambda>s. None)\<rparr>"

definition empty_state :: "string scorer_state" where
  "empty_state = \<lparr>enqueued = [], logged = [], block_reads = 0, uuids_drawn = 0\<rparr>"

definition user_message :: "string \<Rightarrow> json" where
  "user_message c = JDict [(''role'', JStr ''user''), (''content'', JStr c)]"

definition some_chunks :: json where
  "some_chunks = JDict [(''1'', JList [JStr ''a'', JStr ''b'']), (''3'', JList [JStr ''c''])]"

definition request_fields :: "json \<Rightarrow> (string \<times> json) list \<Rightarrow> (string \<times> json) list" where
  "request_fields uid_field b = [(''uid'', uid_field), (''chunks'', some_chunks), (''body'', JDict b)]"

definition resolved_model_body :: "(string \<times> json) list" where
  "resolved_model_body =
     [(''task'', JStr ''InferenceTask''), (''model'', JStr ''known-model''),
      (''messages'', JList [user_message ''hi''])]"

definition inference_body :: "(string \<times> json) list" where
  "inference_body = [(''task'', JStr ''InferenceTask''), (''messages'', JList [user_message ''hi''])]"

definition web_retrieval_body :: "(string \<times> json) list" where
  "web_retrieval_body = [(''task'', JStr ''WebRetrievalTask''), (''messages'', JList [user_message ''cats''])]"

definition unknown_task_body :: "(string \<times> json) list" where
  "unknown_task_body = [(''task'', JStr ''SummarizationTask''), (''messages'', JList [user_message ''hi''])]"



definition one_uid :: json where
  "one_uid = JList [JInt 1]"

definition three_uids :: json where
  "three_uids = JList [JInt 1, JInt 2, JInt 3]"


definition zero_weight_config :: "(string, rat) neuron_config" where
  "zero_weight_config = \<lparr>tasks = [''qa'', ''summarization'', ''date_qa''], task_p = [1 / 2, 0, 1 / 2]\<rparr>"

section \<open>What one call of the handler may do to the queue\<close>

text \<open>
  \<open>organic_step env st st'\<close>: from \<open>st\<close> to \<open>st'\<close> at most one entry was appended to the
  queue; an appended entry has step \<open>-1\<close> and the block height the metagraph showed at
  the one read made for it.
\<close>

definition organic_step :: "'m environment \<Rightarrow> 'm scorer_state \<Rightarrow> 'm scorer_state \<Rightarrow> bool" where
  "organic_step env st st' =
     (\<exists>new. enqueued st' = enqueued st @ new \<and> length new \<le> 1
        \<and> (\<forall>e \<in> set new. step e = - 1 \<and> block e = metagraph_block env (block_reads st))
        \<and> block_reads st' = block_reads st + length new)"

section \<open>Facts about the handler's steps\<close>

lemmas handler_defs =
  Let_def score_response_def dispatch_def inference_branch_def web_retrieval_branch_def
  enqueue_organic_def read_block_def draw_uuid_def add_to_queue_def logger_def dict_get_def
  search_term_of_def message_contents_def

lemmas example_defs =
  example_env_def empty_state_def user_message_def request_fields_def some_chunks_def
  one_uid_def three_uids_def

lemmas digit_defs = str_int_def str_nat.simps digit_char_def

lemma enqueued_logger: "enqueued (logger lv ev st) = enqueued st"
  by (simp add: logger_def)

lemma block_reads_logger: "block_reads (logger lv ev st) = block_reads st"
  by (simp add: logger_def)

lemma enqueue_organic_result:
  "enqueue_organic env st tk resp de =
     (Returned,
      logger INFO AppendedToQueue
        (add_to_queue
           \<lparr>task = tk, response = resp, dataset_entry = de,
            block = metagraph_block env (block_reads st), step = - 1,
            task_id = uuid4 env (uuids_drawn st)\<rparr>
           (st\<lparr>block_reads := Suc (block_reads st), uuids_drawn := Suc (uuids_drawn st)\<rparr>)))"
  by (simp add: enqueue_organic_def read_block_def draw_uuid_def)

lemma organic_step_same:
  "enqueued st' = enqueued st \<Longrightarrow> block_reads st' = block_reads st \<Longrightarrow> organic_step env st st'"
  by (simp add: organic_step_def)

lemma organic_step_enqueue:
  assumes "enqueued st1 = enqueued st" and "block_reads st1 = block_reads st"
  shows "organic_step env st (snd (enqueue_organic env st1 tk resp de))"
  unfolding organic_step_def enqueue_organic_result
  using assms
  by (intro exI[where x = "[\<lparr>task = tk, response = resp, dataset_entry = de,
            block = metagraph_block env (block_reads st), step = - 1,
            task_id = uuid4 env (uuids_drawn st1)\<rparr>]"])
     (simp add: logger_def add_to_queue_def)

lemma inference_branch_step:
  "organic_step env st (snd (inference_branch env st b llm tmo us chunks))"
  unfolding inference_branch_def Let_def
  by (auto split: sum.splits intro!: organic_step_same organic_step_enqueue
        simp: enqueued_logger block_reads_logger)

lemma web_retrieval_branch_step:
  "organic_step env st (snd (web_retrieval_branch env st b us chunks))"
  unfolding web_retrieval_branch_def Let_def
  by (auto split: sum.splits intro!: organic_step_same organic_step_enqueue
        simp: enqueued_logger block_reads_logger)

lemma dispatch_step:
  "organic_step env st (snd (dispatch env st b llm tmo us chunks))"
  unfolding dispatch_def Let_def
  by (auto intro!: organic_step_same inference_branch_step web_retrieval_branch_step
        simp: enqueued_logger block_reads_logger)

lemma score_response_step:
  "organic_step env st (snd (score_response env st payload))"
  unfolding score_response_def Let_def
  by (auto split: json.splits sum.splits option.splits intro!: organic_step_same dispatch_step
        simp: enqueued_logger block_reads_logger)

section \<open>The model identifier\<close>

text \<open>
  Once \<open>body.get("model")\<close> is truthy the handler returns on line 71, whatever the model
  zoo answers: nothing is enqueued for a request that names a model.
\<close>

lemma truthy_model_never_enqueued:
  assumes "dict_get p ''body'' JNull = JDict b" and "truthy (dict_get b ''model'' JNull)"
  shows "enqueued (snd (score_response env st (JDict p))) = enqueued st"
  using assms
  by (auto simp: score_response_def Let_def logger_def split: sum.splits option.splits)

text \<open>
  Claim C1: an InferenceTask request whose body names a model is rejected without being
  enqueued exactly when the model zoo cannot resolve the name, and is enqueued when the
  name resolves. The handler does otherwise: for the request with uid \<open>[1]\<close>, chunks for
  uids 1 and 3, task \<open>InferenceTask\<close> and model \<open>known-model\<close>, which the model zoo
  resolves, it returns with the queue and the log as they were.
\<close>

theorem resolved_model_not_enqueued:
  "get_model_by_id example_env (JStr ''known-model'') = Some ''known-model-config''
   \<and> score_response example_env empty_state (JDict (request_fields one_uid resolved_model_body))
       = (Returned, empty_state)"
  by (simp add: handler_defs example_defs resolved_model_body_def)

section \<open>The signature verifier\<close>

text \<open>
  Claim C2: the verifier builds the message from the digest of the body, the nonce, the
  timestamp and the intended recipient, and returns the mismatch message exactly when
  the signature does not verify. The function has the three parameters \<open>signature\<close>,
  \<open>body\<close> and \<open>signed_by\<close>; with the names the module binds, every well-typed request
  of the trusted signer ends in \<open>NameError\<close> at line 38, before \<open>keypair.verify\<close> is
  called, whatever the signature.
\<close>

theorem verifier_raises_name_error:
  "verify_scoring_signature rt hk api_globals (OStr sig) (OBytes raw) (OStr hk)
     = Inl (NameError ''timestamp'')"
  by (simp add: verify_scoring_signature_def lookup_name_def api_globals_def)

text \<open>
  With the names the module binds the verifier accepts no request, and the verdicts it
  returns are the four messages for an argument of the wrong type and for a signer
  other than the configured one: none of them depends on a timestamp.
\<close>

lemma verifier_never_accepts:
  "verify_scoring_signature rt hk api_globals signature body signed_by \<noteq> Inr None"
  by (simp add: verify_scoring_signature_def lookup_name_def api_globals_def
        split: pyobj.splits)

lemma verifier_verdicts:
  "verify_scoring_signature rt hk api_globals signature body signed_by \<in>
     {Inl (NameError ''timestamp''),
      Inr (Some ''Invalid signature type''),
      Inr (Some ''Body is not of type bytes''),
      Inr (Some ''Invalid 'signed_by' address''),
      Inr (Some ''Message not from the expected SS58 address'')}"
  by (simp add: verify_scoring_signature_def lookup_name_def api_globals_def
        split: pyobj.splits)


section \<open>The response bundle\<close>

text \<open>
  The InferenceTask branch looks every requested uid up in \<open>chunks\<close>, in the order of
  the request, and stores \<open>None\<close> for a uid without chunks.
\<close>

lemma stream_results_per_uid:
  "map_exc (\<lambda>uid. map_sum id SynapseStreamResult (py_get (JDict c) (str_int uid) JNull)) us
     = Inr (map (\<lambda>uid. SynapseStreamResult (dict_get c (str_int uid) JNull)) us)"
  by (induction us) simp_all

lemma inference_branch_bundle:
  assumes "py_int (int_of_str env) (dict_get b ''seed'' (JInt 0)) = Inr sd"
  shows "map response (enqueued (snd (inference_branch env st b llm tmo us (JDict c)))) =
           map response (enqueued st) @
           [\<lparr>uids = JList (map JInt us),
             stream_results = map (\<lambda>uid. SynapseStreamResult (dict_get c (str_int uid) JNull)) us,
             timeout = tmo\<rparr>]"
  using assms unfolding inference_branch_def Let_def stream_results_per_uid
  by (simp add: enqueue_organic_def read_block_def draw_uuid_def add_to_queue_def logger_def)

lemma inference_bundle_example:
  "map response (enqueued (snd (score_response example_env empty_state
      (JDict (request_fields three_uids inference_body))))) =
     [\<lparr>uids = JList [JInt 1, JInt 2, JInt 3],
       stream_results =
         [SynapseStreamResult (JList [JStr ''a'', JStr ''b'']), SynapseStreamResult JNull,
          SynapseStreamResult (JList [JStr ''c''])],
       timeout = JInt 15\<rparr>]"
  by (simp add: handler_defs example_defs inference_body_def digit_defs)

text \<open>
  Claim C4: the bundle holds one entry per requested uid, in the order of the request,
  with the uid's chunks or a placeholder, for every task kind. The WebRetrievalTask
  branch does otherwise: for the uids \<open>[1, 2, 3]\<close> and chunks for the uids 1 and 3 its
  bundle has the whole uid list as its single uid and a single stream result, whose
  chunks are the keys \<open>"1"\<close> and \<open>"3"\<close> of the mapping.
\<close>

theorem web_retrieval_bundle_not_per_uid:
  "map response (enqueued (snd (score_response example_env empty_state
      (JDict (request_fields three_uids web_retrieval_body))))) =
     [\<lparr>uids = JList [JList [JInt 1, JInt 2, JInt 3]],
       stream_results = [SynapseStreamResult (JList [JStr ''1'', JStr ''3''])],
       timeout = JInt 15\<rparr>]"
  by (simp add: handler_defs example_defs web_retrieval_body_def)

section \<open>The dispatch on the task kind\<close>

text \<open>
  Claim C5, as amended: for a payload whose \<open>task\<close> is neither \<open>InferenceTask\<close> nor
  \<open>WebRetrievalTask\<close> nothing is enqueued, and no error is raised or logged for the
  unknown kind: a request that passes the checks before the dispatch (truthy \<open>uid\<close>
  and \<open>chunks\<close>, uids that convert to integers, no model identifier) returns normally
  after logging the closing line at level INFO.
\<close>

theorem unknown_task_kind_ignored:
  assumes "dict_get p ''body'' JNull = JDict b"
    and "dict_get b ''task'' JNull \<noteq> JStr ''InferenceTask''"
    and "dict_get b ''task'' JNull \<noteq> JStr ''WebRetrievalTask''"
  shows "enqueued (snd (score_response env st (JDict p))) = enqueued st
      \<and> (truthy (dict_get p ''uid'' (JList [])) \<and> truthy (dict_get p ''chunks'' (JDict []))
           \<and> py_iter (dict_get p ''uid'' (JList [])) = Inr us
           \<and> map_exc (py_int (int_of_str env)) us = Inr uid_list
           \<and> \<not> truthy (dict_get b ''model'' JNull)
         \<longrightarrow> score_response env st (JDict p) = (Returned, logger INFO AppendedToQueue st))"
  using assms
  by (auto simp add: score_response_def dispatch_def Let_def enqueued_logger
        split: sum.splits option.splits)

theorem unknown_task_kind_ignored_witness:
  "dict_get (request_fields one_uid unknown_task_body) ''body'' JNull = JDict unknown_task_body
   \<and> dict_get unknown_task_body ''task'' JNull = JStr ''SummarizationTask''
   \<and> enqueued (snd (score_response example_env empty_state
        (JDict (request_fields one_uid unknown_task_body)))) = []
   \<and> score_response example_env empty_state (JDict (request_fields one_uid unknown_task_body))
       = (Returned, logger INFO AppendedToQueue empty_state)"
proof -
  have b: "dict_get (request_fields one_uid unknown_task_body) ''body'' JNull = JDict unknown_task_body"
    by (simp add: dict_get_def request_fields_def)
  have k: "dict_get unknown_task_body ''task'' JNull = JStr ''SummarizationTask''"
    by (simp add: dict_get_def unknown_task_body_def)
  have k1: "dict_get unknown_task_body ''task'' JNull \<noteq> JStr ''InferenceTask''"
    and k2: "dict_get unknown_task_body ''task'' JNull \<noteq> JStr ''WebRetrievalTask''"
    by (simp_all add: k)
  have checks: "truthy (dict_get (request_fields one_uid unknown_task_body) ''uid'' (JList []))
      \<and> truthy (dict_get (request_fields one_uid unknown_task_body) ''chunks'' (JDict []))
      \<and> py_iter (dict_get (request_fields one_uid unknown_task_body) ''uid'' (JList [])) = Inr [JInt 1]
      \<and> map_exc (py_int (int_of_str example_env)) [JInt 1] = Inr [1]
      \<and> \<not> truthy (dict_get unknown_task_body ''model'' JNull)"
    by (simp add: dict_get_def request_fields_def one_uid_def some_chunks_def unknown_task_body_def)
  show ?thesis
    using b k checks
      unknown_task_kind_ignored [OF b k1 k2, of example_env empty_state "[JInt 1]" "[1]"]
    by (simp add: empty_state_def enqueued_logger)
qed

text \<open>
  Claim C5 as stated fails: the request with task \<open>SummarizationTask\<close> returns normally;
  the log holds the closing line at level INFO and nothing else.
\<close>

theorem unknown_task_kind_no_error:
  "score_response example_env empty_state (JDict (request_fields one_uid unknown_task_body))
     = (Returned, empty_state\<lparr>logged := [(INFO, AppendedToQueue)]\<rparr>)"
  by (simp add: handler_defs example_defs unknown_task_body_def)

text \<open>
  The expression of line 102 yields a search term exactly when \<open>messages\<close> is a list
  whose first element is an object (the term is \<open>None\<close> when the object has no
  \<open>content\<close>); in every other case it raises.
\<close>

lemma py_get_Inr_iff: "(\<exists>s. py_get m k dflt = Inr s) \<longleftrightarrow> (\<exists>d. m = JDict d)"
  by (cases m) simp_all

lemma search_term_of_extracts:
  "(\<exists>s. search_term_of b = Inr s) \<longleftrightarrow> (\<exists>d ms. dict_get b ''messages'' JNull = JList (JDict d # ms))"
proof (cases "dict_get b ''messages'' JNull" rule: py_index0.cases)
  case (2 x xs)
  then show ?thesis
    using py_get_Inr_iff [of x "''content''" JNull]
    by (simp add: search_term_of_def)
qed (simp_all add: search_term_of_def)

text \<open>
  A first message without \<open>content\<close> is not such a failure: the search term is
  \<open>None\<close>, and the comprehension of line 109 raises \<open>KeyError\<close>, which nothing catches.
\<close>

lemma first_message_without_content:
  assumes "dict_get b ''messages'' JNull = JList (JDict d # ms)" and "map_of d ''content'' = None"
  shows "search_term_of b = Inr JNull"
    and "web_retrieval_branch env st b us chunks =
           (Raised KeyError, logger INFO (ReceivedWebRetrieval (JDict b)) st)"
  using assms
  by (simp_all add: search_term_of_def message_contents_def web_retrieval_branch_def dict_get_def)




section \<open>Empty uid list or chunks\<close>

text \<open>
  Claim C7: for every request whose \<open>uid\<close> list or \<open>chunks\<close> mapping is empty (or
  missing), the handler logs the condition at level ERROR and returns normally; nothing
  is enqueued and no exception reaches the caller.
\<close>

theorem empty_uid_or_chunks_skips:
  assumes "py_not (dict_get p ''uid'' (JList [])) \<or> py_not (dict_get p ''chunks'' (JDict []))"
  shows "score_response env st (JDict p) =
           (Returned,
            logger ERROR (SkippingScoring (dict_get p ''uid'' (JList []))
                            (dict_get p ''chunks'' (JDict []))) st)
         \<and> enqueued (snd (score_response env st (JDict p))) = enqueued st"
  using assms by (auto simp add: score_response_def Let_def enqueued_logger)

theorem empty_uid_or_chunks_skips_witness:
  "py_not (dict_get (request_fields (JList []) inference_body) ''uid'' (JList []))
   \<and> score_response example_env empty_state (JDict (request_fields (JList []) inference_body)) =
        (Returned, logger ERROR (SkippingScoring (JList []) some_chunks) empty_state)
   \<and> enqueued (snd (score_response example_env empty_state
        (JDict (request_fields (JList []) inference_body)))) = []"
proof -
  have e: "py_not (dict_get (request_fields (JList []) inference_body) ''uid'' (JList []))"
    by (simp add: dict_get_def request_fields_def)
  then have h: "py_not (dict_get (request_fields (JList []) inference_body) ''uid'' (JList []))
      \<or> py_not (dict_get (request_fields (JList []) inference_body) ''chunks'' (JDict []))"
    by (rule disjI1)
  show ?thesis
    using e empty_uid_or_chunks_skips [OF h, of example_env empty_state]
    by (simp add: dict_get_def request_fields_def empty_state_def enqueued_logger)
qed

section \<open>Step and block height of an enqueued entry\<close>

text \<open>
  Claim C8: every entry a call of the handler enqueues has step \<open>-1\<close>, and its block
  height is the one the metagraph showed at the single read the call made for it: a
  call appends at most one entry and reads the block height once per appended entry.
\<close>

theorem organic_entry_step_and_block:
  "\<exists>new. enqueued (snd (score_response env st payload)) = enqueued st @ new
      \<and> length new \<le> 1
      \<and> (\<forall>e \<in> set new. step e = - 1 \<and> block e = metagraph_block env (block_reads st))
      \<and> block_reads (snd (score_response env st payload)) = block_reads st + length new"
  using score_response_step [of env st payload] unfolding organic_step_def .

theorem organic_entry_step_and_block_witness:
  "map step (enqueued (snd (score_response example_env empty_state
       (JDict (request_fields three_uids inference_body))))) = [- 1]
   \<and> map block (enqueued (snd (score_response example_env empty_state
       (JDict (request_fields three_uids inference_body))))) = [metagraph_block example_env 0]
   \<and> (\<exists>new. enqueued (snd (score_response example_env empty_state
                 (JDict (request_fields three_uids inference_body)))) = enqueued empty_state @ new
      \<and> length new \<le> 1
      \<and> (\<forall>e \<in> set new. step e = - 1 \<and> block e = metagraph_block example_env (block_reads empty_state))
      \<and> block_reads (snd (score_response example_env empty_state
                 (JDict (request_fields three_uids inference_body)))) = block_reads empty_state + length new)"
proof -
  have a: "map step (enqueued (snd (score_response example_env empty_state
       (JDict (request_fields three_uids inference_body))))) = [- 1]"
    by (simp add: handler_defs example_defs inference_body_def digit_defs)
  have b: "map block (enqueued (snd (score_response example_env empty_state
       (JDict (request_fields three_uids inference_body))))) = [metagraph_block example_env 0]"
    by (simp add: handler_defs example_defs inference_body_def digit_defs)
  show ?thesis
    using a b
      organic_entry_step_and_block [of example_env empty_state
        "JDict (request_fields three_uids inference_body)"]
    by blast
qed

section \<open>The validator's active tasks\<close>

lemma filter_zip_nths:
  "[tsk. (tsk, p) \<leftarrow> zip ts ps, 0 < p] = nths ts {i. i < length ps \<and> 0 < ps ! i}"
proof (induction ts arbitrary: ps)
  case Nil
  then show ?case by simp
next
  case (Cons t ts)
  show ?case
  proof (cases ps)
    case Nil
    then show ?thesis by simp
  next
    case (Cons q qs)
    have "{j. Suc j \<in> {i. i < length (q # qs) \<and> 0 < (q # qs) ! i}} = {i. i < length qs \<and> 0 < qs ! i}"
      by auto
    with Cons Cons.IH[of qs] show ?thesis
      by (simp add: nths_Cons)
  qed
qed

lemma nths_subseq: "subseq (nths ts N) ts"
  using subseq_conv_nths by blast

text \<open>
  Claim C10: after a successful construction the active tasks are the configured tasks
  whose configured probability is greater than 0, in the order of the configuration,
  and they are the tasks the reward pipeline is built from.
\<close>

theorem active_tasks_positive_probability:
  assumes "validator_init cfg = Inr v"
  shows "active_tasks v = nths (tasks cfg) {i. i < length (task_p cfg) \<and> 0 < task_p cfg ! i}
       \<and> subseq (active_tasks v) (tasks cfg)
       \<and> selected_tasks (reward_pipeline v) = active_tasks v"
  using assms
  by (auto simp add: validator_init_def Let_def filter_zip_nths nths_subseq split: if_splits)

theorem active_tasks_positive_probability_witness:
  "validator_init zero_weight_config =
     Inr \<lparr>active_tasks = [''qa'', ''date_qa''], reward_pipeline = RewardPipeline [''qa'', ''date_qa'']\<rparr>
   \<and> [''qa'', ''date_qa''] =
       nths (tasks zero_weight_config)
         {i. i < length (task_p zero_weight_config) \<and> 0 < task_p zero_weight_config ! i}
   \<and> subseq [''qa'', ''date_qa''] (tasks zero_weight_config)"
proof -
  have i: "validator_init zero_weight_config =
     Inr \<lparr>active_tasks = [''qa'', ''date_qa''], reward_pipeline = RewardPipeline [''qa'', ''date_qa'']\<rparr>"
    by (simp add: validator_init_def py_sum_def zero_weight_config_def Let_def)
  show ?thesis
    using i active_tasks_positive_probability [OF i]
    by (simp add: nths_subseq)
qed

end
